theory Spec2Isabelle
  imports Main "HOL-Library.Word"
begin

section \<open>Range Streaming Engine: \<open>parse_range_header\<close> (app/api/stream.py)\<close>

text \<open>
  Strings are lists of \<^typ>\<open>char\<close>, one \<^typ>\<open>char\<close> per code point. The Range header reaches
  \<open>parse_range_header\<close> as a Latin-1 decoded header value, so every code point is below 256,
  and among those the regular expression class \<open>\d\<close> matches exactly the ten ASCII digits.
\<close>

definition is_digit :: "char \<Rightarrow> bool" where
  "is_digit c = (c \<in> set ''0123456789'')"

definition digit_value :: "char \<Rightarrow> int" where
  "digit_value c = int (of_char c) - 48"

text \<open>
  The \<open>ValueError\<close>s of \<open>parse_range_header\<close>: its three \<open>raise\<close> statements, in source
  order, and the one that \<open>int(...)\<close> raises on a string of more digits than the
  interpreter converts (the argument is the number of digits).
\<close>

datatype value_error =
    InvalidRangeHeaderFormat string
  | BothEmpty
  | InvalidRange int int
  | ExceedsDigitLimit nat

text \<open>
  The interpreter's limit on the digits of a conversion between \<open>int\<close> and \<open>str\<close>; the
  repository leaves it at its default.
\<close>

definition int_max_str_digits :: nat where
  "int_max_str_digits = 4300"

text \<open>
  Python's \<open>int(s)\<close> on a string of decimal digits: the value, an unbounded integer, or
  a \<open>ValueError\<close> when the string has more than \<open>int_max_str_digits\<close> digits (leading zeros
  count).
\<close>

definition digits_value :: "string \<Rightarrow> int" where
  "digits_value s = foldl (\<lambda>n c. 10 * n + digit_value c) 0 s"

definition py_int :: "string \<Rightarrow> value_error + int" where
  "py_int s =
     (if length s > int_max_str_digits then Inl (ExceedsDigitLimit (length s))
      else Inr (digits_value s))"

text \<open>
  \<open>re.match(r"bytes=(\d*)-(\d*)", range_header)\<close>: the match is anchored at the start of the
  string only. Both groups are greedy; the first one is followed by a literal \<open>-\<close>, which is
  no digit, so backtracking into a shorter first group can never succeed and the match is
  the longest run of digits, a hyphen, and the longest run of digits again. Whatever
  follows the second run is not looked at. The result is \<open>match.groups()\<close>.
\<close>

definition re_match :: "string \<Rightarrow> (string \<times> string) option" where
  "re_match range_header =
     (if take 6 range_header = ''bytes='' then
        (let rest = drop 6 range_header;
             start_str = takeWhile is_digit rest
         in case dropWhile is_digit rest of
              [] \<Rightarrow> None
            | c # rest' \<Rightarrow>
                if c = CHR ''-'' then Some (start_str, takeWhile is_digit rest') else None)
      else None)"

text \<open>
  \<open>parse_range_header\<close>. The conversions are made in the order of the source: in the
  third branch \<open>int(start_str)\<close> before \<open>int(end_str)\<close>.
\<close>

definition parse_range_header :: "string \<Rightarrow> int \<Rightarrow> value_error + int \<times> int" where
  "parse_range_header range_header file_size =
     (case re_match range_header of
        None \<Rightarrow> Inl (InvalidRangeHeaderFormat range_header)
      | Some (start_str, end_str) \<Rightarrow>
          if start_str = [] \<and> end_str = [] then Inl BothEmpty
          else
            (case
               (if start_str = [] then
                  (case py_int end_str of
                     Inl e \<Rightarrow> Inl e
                   | Inr suffix_length \<Rightarrow>
                       Inr (max 0 (file_size - suffix_length), file_size - 1))
                else if end_str = [] then
                  (case py_int start_str of
                     Inl e \<Rightarrow> Inl e
                   | Inr start0 \<Rightarrow> Inr (start0, file_size - 1))
                else
                  (case py_int start_str of
                     Inl e \<Rightarrow> Inl e
                   | Inr start0 \<Rightarrow>
                       (case py_int end_str of
                          Inl e \<Rightarrow> Inl e
                        | Inr end0 \<Rightarrow> Inr (start0, end0))))
             of
               Inl e \<Rightarrow> Inl e
             | Inr (start0, end0) \<Rightarrow>
                 (let start1 = (if start0 < 0 then 0 else start0);
                      end1 = (if end0 \<ge> file_size then file_size - 1 else end0)
                  in if start1 > end1 then Inl (InvalidRange start1 end1)
                     else Inr (start1, end1))))"

text \<open>
  The decimal representation of an integer, and Python's \<open>str\<close> of it, as the f-strings
  \<open>f"bytes={start}-{end}"\<close> of the tests and of the specification's properties build it:
  \<open>str\<close> raises a \<open>ValueError\<close> when the representation has more than \<open>int_max_str_digits\<close>
  digits.
\<close>

definition digit_char :: "nat \<Rightarrow> char" where
  "digit_char d = ''0123456789'' ! d"

fun str_nat :: "nat \<Rightarrow> string" where
  "str_nat n =
     (if n < 10 then [digit_char n] else str_nat (n div 10) @ [digit_char (n mod 10)])"

declare str_nat.simps [simp del]

definition decimal :: "int \<Rightarrow> string" where
  "decimal i = (if i < 0 then CHR ''-'' # str_nat (nat (- i)) else str_nat (nat i))"

definition py_str :: "int \<Rightarrow> value_error + string" where
  "py_str i =
     (if length (str_nat (nat \<bar>i\<bar>)) > int_max_str_digits
      then Inl (ExceedsDigitLimit (length (str_nat (nat \<bar>i\<bar>))))
      else Inr (decimal i))"

text \<open>
  The textual forms of the specification, word for word: \<open>bytes=<start>-<end>\<close> where each of
  \<open><start>\<close> and \<open><end>\<close> is a non-negative decimal integer or empty, and at least one of the
  two is non-empty. This definition follows the specification, not the source.
\<close>

definition spec_range_form :: "string \<Rightarrow> bool" where
  "spec_range_form s =
     (take 6 s = ''bytes='' \<and>
      (let rest = drop 6 s;
           start_str = takeWhile is_digit rest;
           tail = dropWhile is_digit rest
       in tail \<noteq> [] \<and> hd tail = CHR ''-'' \<and> list_all is_digit (tl tail) \<and>
          \<not> (start_str = [] \<and> tl tail = [])))"


section \<open>Data model (app/models/song.py, app/models/media_asset.py)\<close>

type_synonym uuid = "128 word"

datatype AssetType =
    VIDEO_MASTER | AUDIO_ORIGINAL | AUDIO_INST | AUDIO_VOCAL
  | LYRICS_VTT | LYRICS_WORD_LEVEL | WAVEFORM_JSON

fun AssetType_value :: "AssetType \<Rightarrow> string" where
  "AssetType_value VIDEO_MASTER = ''video_master''"
| "AssetType_value AUDIO_ORIGINAL = ''audio_original''"
| "AssetType_value AUDIO_INST = ''audio_inst''"
| "AssetType_value AUDIO_VOCAL = ''audio_vocal''"
| "AssetType_value LYRICS_VTT = ''lyrics_vtt''"
| "AssetType_value LYRICS_WORD_LEVEL = ''lyrics_word_level''"
| "AssetType_value WAVEFORM_JSON = ''waveform_json''"

datatype SongStatus = PENDING | PROCESSING | READY | PARTIAL | FAILED

fun SongStatus_value :: "SongStatus \<Rightarrow> string" where
  "SongStatus_value PENDING = ''PENDING''"
| "SongStatus_value PROCESSING = ''PROCESSING''"
| "SongStatus_value READY = ''READY''"
| "SongStatus_value PARTIAL = ''PARTIAL''"
| "SongStatus_value FAILED = ''FAILED''"

text \<open>
  JSON-like values (\<open>Dict[str, Any]\<close>); \<open>JNull\<close> is Python's \<open>None\<close>. Floating point numbers
  are left out: no value the lifecycle writes is one.
\<close>

datatype json =
    JNull | JBool bool | JInt int | JStr string
  | JList "json list" | JObj "(string \<times> json) list"

type_synonym dict = "string \<rightharpoonup> json"

text \<open>\<open>d.get(k)\<close>: the value, or \<open>None\<close> when the key is absent.\<close>

definition dict_get :: "dict \<Rightarrow> string \<Rightarrow> json" where
  "dict_get d k = (case d k of None \<Rightarrow> JNull | Some v \<Rightarrow> v)"

text \<open>
  A row of \<open>media_assets\<close>. The technical metadata columns hold whatever the caller's
  metadata dictionary holds (\<open>JNull\<close> for NULL); \<open>created_at\<close> is set by the server and read
  by none of the operations below.
\<close>

record MediaAsset =
  asset_id :: uuid
  song_id :: uuid
  type :: string
  path :: string
  file_size :: json
  duration :: json
  codec :: json
  bitrate :: json
  resolution :: json

text \<open>
  A row of \<open>songs\<close>, with the columns the lifecycle reads or writes and two of the
  columns it leaves alone. \<open>meta_json\<close> is NULL (\<open>None\<close>) or a dictionary.
\<close>

record Song =
  title :: string
  artist :: string
  status :: string
  meta_json :: "dict option"

text \<open>
  The persistent store: \<open>songs\<close> by primary key, and the rows of \<open>media_assets\<close> in the
  order in which an unordered query returns them.
\<close>

record database =
  songs :: "uuid \<rightharpoonup> Song"
  media_assets :: "MediaAsset list"


section \<open>Asset Registry (worker/services/media_asset_service.py, app/services/media_asset_service.py)\<close>

definition get_assets_by_song :: "MediaAsset list \<Rightarrow> uuid \<Rightarrow> MediaAsset list" where
  "get_assets_by_song rows sid = filter (\<lambda>a. song_id a = sid) rows"

text \<open>\<open>SyncMediaAssetService.get_asset_by_song_and_type\<close>: \<open>query.filter(...).first()\<close>.\<close>

definition SyncMediaAssetService_get_asset_by_song_and_type ::
    "MediaAsset list \<Rightarrow> uuid \<Rightarrow> AssetType \<Rightarrow> MediaAsset option" where
  "SyncMediaAssetService_get_asset_by_song_and_type rows sid asset_type =
     (case filter (\<lambda>a. song_id a = sid \<and> type a = AssetType_value asset_type) rows of
        [] \<Rightarrow> None
      | a # _ \<Rightarrow> Some a)"

text \<open>
  \<open>MediaAssetService.get_asset_by_song_and_type\<close> (the API's service):
  \<open>result.scalar_one_or_none()\<close>, which raises \<open>MultipleResultsFound\<close> when the query
  returns more than one row.
\<close>

datatype db_error = MultipleResultsFound

definition MediaAssetService_get_asset_by_song_and_type ::
    "MediaAsset list \<Rightarrow> uuid \<Rightarrow> AssetType \<Rightarrow> db_error + MediaAsset option" where
  "MediaAssetService_get_asset_by_song_and_type rows sid asset_type =
     (case filter (\<lambda>a. song_id a = sid \<and> type a = AssetType_value asset_type) rows of
        [] \<Rightarrow> Inr None
      | [a] \<Rightarrow> Inr (Some a)
      | _ # _ # _ \<Rightarrow> Inl MultipleResultsFound)"

text \<open>
  \<open>SyncMediaAssetService.create_asset\<close>: the new row's primary key is the \<open>uuid4()\<close> default,
  here the argument \<open>new_id\<close>. Returns the row and the table with the row added.
\<close>

definition create_asset ::
    "MediaAsset list \<Rightarrow> uuid \<Rightarrow> uuid \<Rightarrow> AssetType \<Rightarrow> string \<Rightarrow>
     json \<Rightarrow> json \<Rightarrow> json \<Rightarrow> json \<Rightarrow> json \<Rightarrow> MediaAsset \<times> MediaAsset list" where
  "create_asset rows new_id sid asset_type p fs dur cod br res =
     (let asset = \<lparr>asset_id = new_id, song_id = sid, type = AssetType_value asset_type,
                    path = p, file_size = fs, duration = dur, codec = cod, bitrate = br,
                    resolution = res\<rparr>
      in (asset, rows @ [asset]))"

definition or_empty :: "dict option \<Rightarrow> dict" where
  "or_empty d = (case d of None \<Rightarrow> Map.empty | Some m \<Rightarrow> m)"

definition create_media_assets_for_song ::
    "MediaAsset list \<Rightarrow> (nat \<Rightarrow> uuid) \<Rightarrow> uuid \<Rightarrow> string \<Rightarrow> string \<Rightarrow> string \<Rightarrow>
     dict option \<Rightarrow> dict option \<Rightarrow> dict option \<Rightarrow> MediaAsset list \<times> MediaAsset list" where
  "create_media_assets_for_song rows uuid4 sid video_path audio_original_path audio_inst_path
       video_metadata audio_original_metadata audio_inst_metadata =
     (let vm = or_empty video_metadata;
          om = or_empty audio_original_metadata;
          im = or_empty audio_inst_metadata;
          (video_asset, rows1) =
             create_asset rows (uuid4 0) sid VIDEO_MASTER video_path
               (dict_get vm ''file_size'') (dict_get vm ''duration'') (dict_get vm ''codec'')
               (dict_get vm ''bitrate'') (dict_get vm ''resolution'');
          (audio_original_asset, rows2) =
             create_asset rows1 (uuid4 1) sid AUDIO_ORIGINAL audio_original_path
               (dict_get om ''file_size'') (dict_get om ''duration'') (dict_get om ''codec'')
               (dict_get om ''bitrate'') JNull;
          (audio_inst_asset, rows3) =
             create_asset rows2 (uuid4 2) sid AUDIO_INST audio_inst_path
               (dict_get im ''file_size'') (dict_get im ''duration'') (dict_get im ''codec'')
               (dict_get im ''bitrate'') JNull
      in ([video_asset, audio_original_asset, audio_inst_asset], rows3))"

text \<open>\<open>SyncMediaAssetService.has_required_assets\<close>, the completeness predicate.\<close>

definition has_required_assets :: "MediaAsset list \<Rightarrow> uuid \<Rightarrow> bool" where
  "has_required_assets rows sid =
     (let required_types = [AssetType_value VIDEO_MASTER, AssetType_value AUDIO_ORIGINAL,
                            AssetType_value AUDIO_INST];
          existing_types =
            map type (filter (\<lambda>a. song_id a = sid \<and> type a \<in> set required_types) rows);
          existing_type_set = set existing_types
      in list_all (\<lambda>rt. rt \<in> existing_type_set) required_types)"


section \<open>Lifecycle Orchestrator (worker/tasks/process_song.py)\<close>

subsection \<open>Output paths\<close>

text \<open>The functions of \<open>os.path\<close> (POSIX flavour) that \<open>_generate_output_paths\<close> calls.\<close>

definition is_sep :: "char \<Rightarrow> bool" where
  "is_sep c = (c = CHR ''/'')"

definition is_dot :: "char \<Rightarrow> bool" where
  "is_dot c = (c = CHR ''.'')"

text \<open>\<open>p[:i]\<close> and \<open>p[i:]\<close> for \<open>i = p.rfind('/') + 1\<close>.\<close>

definition head_part :: "string \<Rightarrow> string" where
  "head_part p = rev (dropWhile (\<lambda>c. \<not> is_sep c) (rev p))"

definition os_path_basename :: "string \<Rightarrow> string" where
  "os_path_basename p = rev (takeWhile (\<lambda>c. \<not> is_sep c) (rev p))"

definition os_path_dirname :: "string \<Rightarrow> string" where
  "os_path_dirname p =
     (let head = head_part p
      in if head = [] then head
         else if list_all is_sep head then head
         else rev (dropWhile is_sep (rev head)))"

text \<open>
  \<open>os.path.splitext(p)[0]\<close>: the extension starts at the last dot of the last path
  component, unless only dots precede that dot in the component.
\<close>

definition os_path_splitext_root :: "string \<Rightarrow> string" where
  "os_path_splitext_root p =
     (let name = os_path_basename p
      in if list_ex is_dot name then
           (let stem = rev (tl (dropWhile (\<lambda>c. \<not> is_dot c) (rev name)))
            in if list_ex (\<lambda>c. \<not> is_dot c) stem then head_part p @ stem else p)
         else p)"

fun os_path_join :: "string \<Rightarrow> string list \<Rightarrow> string" where
  "os_path_join p [] = p"
| "os_path_join p (b # bs) =
     os_path_join
       (if take 1 b = ''/'' then b
        else if p = [] then p @ b
        else if is_sep (last p) then p @ b
        else p @ ''/'' @ b) bs"

record output_paths =
  video_master :: string
  audio_original :: string
  audio_inst :: string
  audio_vocal :: string
  lyrics_vtt :: string

definition generate_output_paths :: "string \<Rightarrow> string \<Rightarrow> output_paths" where
  "generate_output_paths song_id_str file_path =
     (let base_dir = os_path_dirname file_path;
          base_name = os_path_splitext_root (os_path_basename file_path);
          output_dir = os_path_join base_dir [''processed'', song_id_str]
      in \<lparr>video_master = file_path,
          audio_original = os_path_join output_dir [base_name @ ''_original.mp3''],
          audio_inst = os_path_join output_dir [base_name @ ''_inst.mp3''],
          audio_vocal = os_path_join output_dir [base_name @ ''_vocal.mp3''],
          lyrics_vtt = os_path_join output_dir [base_name @ ''.vtt'']\<rparr>)"

subsection \<open>Exceptions and the environment of one attempt\<close>

text \<open>
  The task distinguishes two kinds of exception: Celery's \<open>SoftTimeLimitExceeded\<close>, and
  any other \<open>Exception\<close> \<open>e\<close>, of which it uses \<open>str(e)\<close> only.
\<close>

datatype exn = SoftTimeLimitExceeded | Exception string

text \<open>
  What the surroundings do during one execution of the task body. Each \<open>*_error\<close> field says
  whether an exception is raised at that place, and which:
  \<^item> \<open>step1_error\<close>: in the database session of step 1 (query or commit); the session is
    rolled back, so nothing is written;
  \<^item> \<open>steps_error\<close>: after step 1 has committed \<open>PROCESSING\<close>, in the processing steps 2 to 4;
  \<^item> \<open>assets_error\<close>: in the session of \<open>_create_media_assets\<close>, which is rolled back as a
    whole (the rows are flushed, and committed only when the session is left);
  \<^item> \<open>step6_error\<close>: in the session of step 6, before its commit;
  \<^item> \<open>mark_error\<close>: in the session of \<open>_mark_song_failed\<close>.
  \<open>uuid4\<close> gives the primary keys generated for new rows.
\<close>

record env =
  step1_error :: "exn option"
  steps_error :: "exn option"
  assets_error :: "exn option"
  step6_error :: "exn option"
  mark_error :: "exn option"
  uuid4 :: "nat \<Rightarrow> uuid"

text \<open>
  The dictionaries the task returns; a key the dictionary does not have is \<open>None\<close>.
\<close>

record task_result =
  success :: bool
  result_song_id :: string
  error :: "string option"
  result_status :: "string option"
  assets_created :: "bool option"
  result_output_paths :: "output_paths option"
  message :: "string option"

datatype outcome = Returned task_result | Raised exn

definition failure_result :: "string \<Rightarrow> string \<Rightarrow> task_result" where
  "failure_result song_id_str msg =
     \<lparr>success = False, result_song_id = song_id_str, error = Some msg,
      result_status = None, assets_created = None, result_output_paths = None,
      message = None\<rparr>"

subsection \<open>The task\<close>

text \<open>
  \<open>song_id\<close> arrives as a string and is converted with the standard library's
  \<open>UUID(song_id)\<close>, a parameter here: \<open>None\<close> stands for its \<open>ValueError\<close>.
\<close>

definition badly_formed :: exn where
  "badly_formed = Exception ''badly formed hexadecimal UUID string''"

text \<open>
  \<open>_mark_song_failed\<close>. Every exception raised inside is caught and logged, so the function
  always returns; the session is rolled back and the store is unchanged.

  What the commit writes: \<open>song.status = ...\<close> assigns the attribute, so the status is
  written. The column \<open>meta_json\<close> is declared \<open>Column(JSONB, default=dict)\<close>, a plain JSONB
  type without mutation tracking, and the session writes such an attribute only when it
  was assigned. For a song whose \<open>meta_json\<close> is NULL the function assigns a new dictionary
  and then puts the error into that same dictionary, so \<open>{error: message}\<close> is written.
  For a song whose \<open>meta_json\<close> is a dictionary, \<open>song.meta_json["error"] = ...\<close> changes the
  loaded object in place and assigns nothing: the stored \<open>meta_json\<close> stays as it was.
\<close>

definition mark_song_failed ::
    "(string \<Rightarrow> uuid option) \<Rightarrow> env \<Rightarrow> database \<Rightarrow> string \<Rightarrow> string \<Rightarrow> database" where
  "mark_song_failed UUID ev db song_id_str error_message =
     (case UUID song_id_str of
        None \<Rightarrow> db
      | Some u \<Rightarrow>
          (case mark_error ev of
             Some e \<Rightarrow> db
           | None \<Rightarrow>
               (case songs db u of
                  None \<Rightarrow> db
                | Some song \<Rightarrow>
                    db\<lparr>songs := (songs db)(u \<mapsto>
                      song\<lparr>status := SongStatus_value FAILED,
                           meta_json :=
                             (case meta_json song of
                                None \<Rightarrow> Some [''error'' \<mapsto> JStr error_message]
                              | Some m \<Rightarrow> Some m)\<rparr>)\<rparr>)))"

text \<open>
  \<open>_create_media_assets\<close>: \<open>True\<close> when the three rows are committed, \<open>False\<close> when any
  exception (the soft time limit is an \<open>Exception\<close> too) was caught.
\<close>

definition create_media_assets ::
    "(string \<Rightarrow> uuid option) \<Rightarrow> env \<Rightarrow> database \<Rightarrow> string \<Rightarrow> string \<Rightarrow> string \<Rightarrow> string \<Rightarrow>
     dict option \<Rightarrow> dict option \<Rightarrow> dict option \<Rightarrow> bool \<times> database" where
  "create_media_assets UUID ev db song_id_str video_path audio_original_path audio_inst_path
       video_metadata audio_original_metadata audio_inst_metadata =
     (case UUID song_id_str of
        None \<Rightarrow> (False, db)
      | Some u \<Rightarrow>
          (case assets_error ev of
             Some e \<Rightarrow> (False, db)
           | None \<Rightarrow>
               (let (assets, rows) =
                      create_media_assets_for_song (media_assets db) (uuid4 ev) u video_path
                        audio_original_path audio_inst_path video_metadata
                        audio_original_metadata audio_inst_metadata
                in (True, db\<lparr>media_assets := rows\<rparr>))))"

text \<open>The body of the \<open>try\<close> block: the value returned or the exception raised, and the store.\<close>

definition try_body ::
    "(string \<Rightarrow> uuid option) \<Rightarrow> env \<Rightarrow> database \<Rightarrow> string \<Rightarrow> string \<Rightarrow>
     (exn + task_result) \<times> database" where
  "try_body UUID ev db song_id_str file_path =
     (case UUID song_id_str of
        None \<Rightarrow> (Inl badly_formed, db)
      | Some u \<Rightarrow>
     (case step1_error ev of
        Some e \<Rightarrow> (Inl e, db)
      | None \<Rightarrow>
     (case songs db u of
        None \<Rightarrow> (Inr (failure_result song_id_str ''Song not found''), db)
      | Some song \<Rightarrow>
     (let db1 = db\<lparr>songs := (songs db)(u \<mapsto> song\<lparr>status := SongStatus_value PROCESSING\<rparr>)\<rparr>;
          paths = generate_output_paths song_id_str file_path
      in
     (case steps_error ev of
        Some e \<Rightarrow> (Inl e, db1)
      | None \<Rightarrow>
     (let (created, db2) =
            create_media_assets UUID ev db1 song_id_str (video_master paths)
              (audio_original paths) (audio_inst paths)
              (Some [''codec'' \<mapsto> JStr ''h264'', ''resolution'' \<mapsto> JStr ''1920x1080''])
              (Some [''codec'' \<mapsto> JStr ''mp3'', ''bitrate'' \<mapsto> JInt 320000])
              (Some [''codec'' \<mapsto> JStr ''mp3'', ''bitrate'' \<mapsto> JInt 320000])
      in
     (case step6_error ev of
        Some e \<Rightarrow> (Inl e, db2)
      | None \<Rightarrow>
     (let db3 = (case songs db2 u of
                   None \<Rightarrow> db2
                 | Some song2 \<Rightarrow>
                     db2\<lparr>songs := (songs db2)(u \<mapsto>
                       song2\<lparr>status := SongStatus_value READY\<rparr>)\<rparr>)
      in (Inr \<lparr>success = True, result_song_id = song_id_str, error = None,
               result_status = Some (SongStatus_value READY),
               assets_created = Some created, result_output_paths = Some paths,
               message = Some ''Song processed successfully''\<rparr>, db3)))))))))"

text \<open>
  \<open>process_song_task\<close>: the body with its two handlers. A soft time limit marks the song
  failed and returns; any other exception marks the song failed with \<open>str(e)\<close> and is raised
  again.
\<close>

definition process_song_task ::
    "(string \<Rightarrow> uuid option) \<Rightarrow> env \<Rightarrow> database \<Rightarrow> string \<Rightarrow> string \<Rightarrow> outcome \<times> database" where
  "process_song_task UUID ev db song_id_str file_path =
     (case try_body UUID ev db song_id_str file_path of
        (Inr r, db') \<Rightarrow> (Returned r, db')
      | (Inl SoftTimeLimitExceeded, db') \<Rightarrow>
          (Returned (failure_result song_id_str ''Processing timeout''),
           mark_song_failed UUID ev db' song_id_str ''Processing timeout'')
      | (Inl (Exception msg), db') \<Rightarrow>
          (Raised (Exception msg), mark_song_failed UUID ev db' song_id_str msg))"

subsection \<open>Retries\<close>

text \<open>
  The task is declared with \<open>max_retries=3\<close> and \<open>autoretry_for=(Exception,)\<close>: when the body
  raises, the queue runs the task again, at most \<open>max_retries\<close> more times; when it returns,
  the job is over. \<open>autoretry\<close> gives, attempt by attempt, the outcome and the store the
  attempt leaves behind, which is what an observer reads until the next attempt starts.
  \<open>evs k\<close> is the environment of attempt \<open>k\<close>.
\<close>

definition max_retries :: nat where
  "max_retries = 3"

fun autoretry ::
    "(string \<Rightarrow> uuid option) \<Rightarrow> (nat \<Rightarrow> env) \<Rightarrow> nat \<Rightarrow> nat \<Rightarrow> database \<Rightarrow> string \<Rightarrow> string \<Rightarrow>
     (outcome \<times> database) list" where
  "autoretry UUID evs k 0 db song_id_str file_path =
     [process_song_task UUID (evs k) db song_id_str file_path]"
| "autoretry UUID evs k (Suc n) db song_id_str file_path =
     (case process_song_task UUID (evs k) db song_id_str file_path of
        (Returned r, db') \<Rightarrow> [(Returned r, db')]
      | (Raised e, db') \<Rightarrow>
          (Raised e, db') # autoretry UUID evs (Suc k) n db' song_id_str file_path)"

definition run_job ::
    "(string \<Rightarrow> uuid option) \<Rightarrow> (nat \<Rightarrow> env) \<Rightarrow> database \<Rightarrow> string \<Rightarrow> string \<Rightarrow>
     (outcome \<times> database) list" where
  "run_job UUID evs db song_id_str file_path =
     autoretry UUID evs 0 max_retries db song_id_str file_path"

text \<open>The status of a song as an observer reads it from the store.\<close>

definition status_of :: "database \<Rightarrow> uuid \<Rightarrow> string option" where
  "status_of db u = map_option status (songs db u)"


text \<open>A value of a song's auxiliary metadata, as read from the store.\<close>

definition meta_value :: "database \<Rightarrow> uuid \<Rightarrow> string \<Rightarrow> json option" where
  "meta_value db u k =
     (case songs db u of
        None \<Rightarrow> None
      | Some s \<Rightarrow> (case meta_json s of None \<Rightarrow> None | Some m \<Rightarrow> m k))"



section \<open>A store, a song and environments for concrete runs\<close>

definition ex_asset :: "uuid \<Rightarrow> uuid \<Rightarrow> AssetType \<Rightarrow> string \<Rightarrow> MediaAsset" where
  "ex_asset i sid t p =
     \<lparr>asset_id = i, song_id = sid, type = AssetType_value t, path = p, file_size = JNull,
      duration = JNull, codec = JNull, bitrate = JNull, resolution = JNull\<rparr>"

definition ex_song_id :: string where
  "ex_song_id = ''00000000-0000-0000-0000-000000000001''"

definition ex_other_id :: string where
  "ex_other_id = ''00000000-0000-0000-0000-000000000002''"

definition ex_UUID :: "string \<Rightarrow> uuid option" where
  "ex_UUID s =
     (if s = ''00000000-0000-0000-0000-000000000001'' then Some 1
      else if s = ''00000000-0000-0000-0000-000000000002'' then Some 2
      else None)"

definition ex_file :: string where
  "ex_file = ''/data/media/songs/song.mp4''"

definition ex_song :: Song where
  "ex_song = \<lparr>title = ''Song'', artist = ''Artist'', status = ''PENDING'',
              meta_json = Some [''bpm'' \<mapsto> JInt 120]\<rparr>"

definition ex_db :: database where
  "ex_db = \<lparr>songs = [1 \<mapsto> ex_song], media_assets = []\<rparr>"

text \<open>The same store with the song's \<open>meta_json\<close> NULL.\<close>

definition ex_db_null :: database where
  "ex_db_null = \<lparr>songs = [1 \<mapsto> ex_song\<lparr>meta_json := None\<rparr>], media_assets = []\<rparr>"

definition no_faults :: env where
  "no_faults = \<lparr>step1_error = None, steps_error = None, assets_error = None,
                step6_error = None, mark_error = None, uuid4 = (\<lambda>n. 100 + of_nat n)\<rparr>"

text \<open>The first attempt fails in a processing step, every later attempt runs through.\<close>

definition ex_evs :: "nat \<Rightarrow> env" where
  "ex_evs k =
     (if k = 0 then no_faults\<lparr>steps_error := Some (Exception ''CUDA out of memory'')\<rparr>
      else no_faults)"


section \<open>Decimal strings\<close>

lemma digit_cases: "d < 10 \<Longrightarrow> d \<in> {0, 1, 2, 3, 4, 5, 6, 7, 8, 9::nat}"
  by auto

lemma is_digit_digit_char: "d < 10 \<Longrightarrow> is_digit (digit_char d)"
  using digit_cases [of d] by (auto simp: is_digit_def digit_char_def)

lemma digit_value_digit_char: "d < 10 \<Longrightarrow> digit_value (digit_char d) = int d"
  using digit_cases [of d] by (auto simp: digit_value_def digit_char_def)

lemma str_nat_digits: "list_all is_digit (str_nat n)"
proof (induction n rule: str_nat.induct)
  case (1 n)
  show ?case
  proof (cases "n < 10")
    case True
    then show ?thesis by (simp add: str_nat.simps [of n] is_digit_digit_char)
  next
    case False
    with 1 show ?thesis by (simp add: str_nat.simps [of n] is_digit_digit_char)
  qed
qed

lemma str_nat_nonempty: "str_nat n \<noteq> []"
  by (simp add: str_nat.simps [of n])

lemma str_nat_small: "n < 10 \<Longrightarrow> str_nat n = [digit_char n]"
  by (simp add: str_nat.simps [of n])

lemma str_nat_large:
  "10 \<le> n \<Longrightarrow> str_nat n = str_nat (n div 10) @ [digit_char (n mod 10)]"
  by (simp add: str_nat.simps [of n])

lemma digits_value_snoc: "digits_value (s @ [c]) = 10 * digits_value s + digit_value c"
  by (simp add: digits_value_def)

lemma digits_value_str_nat: "digits_value (str_nat n) = int n"
proof (induction n rule: str_nat.induct)
  case (1 n)
  show ?case
  proof (cases "n < 10")
    case True
    then show ?thesis
      by (simp add: str_nat.simps [of n] digits_value_def digit_value_digit_char)
  next
    case False
    then have "digits_value (str_nat n) = 10 * int (n div 10) + int (n mod 10)"
      using 1 by (simp add: str_nat.simps [of n] digits_value_snoc digit_value_digit_char)
    also have "\<dots> = int n"
      by presburger
    finally show ?thesis .
  qed
qed

text \<open>A number below \<open>10 ^ k\<close> has at most \<open>k\<close> digits, and \<open>10 ^ k\<close> has \<open>k + 1\<close>.\<close>

lemma length_str_nat_le: "n < 10 ^ k \<Longrightarrow> 0 < k \<Longrightarrow> length (str_nat n) \<le> k"
proof (induction n arbitrary: k rule: str_nat.induct)
  case (1 n)
  show ?case
  proof (cases "n < 10")
    case True
    with 1(3) show ?thesis by (simp add: str_nat_small)
  next
    case False
    obtain j where k: "k = Suc j"
      using 1(3) by (cases k) auto
    from False 1(2) k have j: "0 < j"
      by (cases j) auto
    from 1(2) k have "n div 10 < 10 ^ j"
      by (simp add: less_mult_imp_div_less mult.commute)
    with 1(1) [OF False _ j] have "length (str_nat (n div 10)) \<le> j"
      by simp
    with False k show ?thesis
      by (simp add: str_nat_large)
  qed
qed

lemma length_str_nat_power: "length (str_nat (10 ^ k)) = Suc k"
proof (induction k)
  case 0
  then show ?case by (simp add: str_nat_small)
next
  case (Suc k)
  have "(10::nat) \<le> 10 ^ Suc k"
    by (simp add: self_le_power)
  then have "str_nat (10 ^ Suc k) = str_nat (10 ^ Suc k div 10) @ [digit_char (10 ^ Suc k mod 10)]"
    by (rule str_nat_large)
  with Suc show ?case by simp
qed

lemma digits_value_nonneg_aux: "0 \<le> a \<Longrightarrow> list_all is_digit s \<Longrightarrow>
    0 \<le> foldl (\<lambda>n c. 10 * n + digit_value c) a s"
proof (induction s arbitrary: a)
  case Nil
  then show ?case by simp
next
  case (Cons c s)
  from Cons.prems have "is_digit c" by simp
  then have "0 \<le> digit_value c"
    by (auto simp: is_digit_def digit_value_def)
  with Cons.prems have "0 \<le> 10 * a + digit_value c" by simp
  with Cons show ?case by simp
qed

lemma digits_value_nonneg: "list_all is_digit s \<Longrightarrow> 0 \<le> digits_value s"
  unfolding digits_value_def by (rule digits_value_nonneg_aux) simp_all

lemma py_int_nonneg: "list_all is_digit s \<Longrightarrow> py_int s = Inr v \<Longrightarrow> 0 \<le> v"
  by (auto simp: py_int_def digits_value_nonneg split: if_splits)

lemma takeWhile_digits: "list_all is_digit (takeWhile is_digit s)"
  by (induction s) simp_all

lemma not_digit_hyphen: "\<not> is_digit CHR ''-''"
  by (simp add: is_digit_def)

lemma re_match_format:
  assumes a: "list_all is_digit a" and b: "list_all is_digit b"
  shows "re_match (''bytes='' @ a @ ''-'' @ b) = Some (a, b)"
proof -
  have t1: "takeWhile is_digit (a @ CHR ''-'' # b) = a"
    using a not_digit_hyphen by (simp add: takeWhile_tail list_all_iff)
  have d1: "dropWhile is_digit (a @ CHR ''-'' # b) = CHR ''-'' # b"
    using a not_digit_hyphen by (simp add: dropWhile_append list_all_iff)
  have t2: "takeWhile is_digit b = b"
    using b by (simp add: list_all_iff)
  show ?thesis
    by (simp add: re_match_def t1 d1 t2)
qed

lemma re_match_digits:
  "re_match s = Some (a, b) \<Longrightarrow> list_all is_digit a \<and> list_all is_digit b"
  by (auto simp: re_match_def Let_def takeWhile_digits split: if_splits list.splits)

lemma decimal_nonneg: "0 \<le> i \<Longrightarrow> decimal i = str_nat (nat i)"
  by (simp add: decimal_def)

lemma decimal_digits: "0 \<le> i \<Longrightarrow> list_all is_digit (decimal i)"
  by (simp add: decimal_nonneg str_nat_digits)

lemma decimal_nonempty: "decimal i \<noteq> []"
  by (simp add: decimal_def str_nat_nonempty)

lemma length_decimal_le:
  assumes "0 \<le> i" and "i < 10 ^ int_max_str_digits"
  shows "length (decimal i) \<le> int_max_str_digits"
proof -
  from assms have "int (nat i) < int (10 ^ int_max_str_digits)"
    by simp
  then have "nat i < 10 ^ int_max_str_digits"
    by (simp only: of_nat_less_iff)
  then have "length (str_nat (nat i)) \<le> int_max_str_digits"
    by (rule length_str_nat_le) (simp add: int_max_str_digits_def)
  with assms(1) show ?thesis
    by (simp add: decimal_nonneg)
qed

text \<open>Within the limit, \<open>str\<close> gives the decimal representation and \<open>int\<close> reads it back.\<close>

lemma py_str_decimal:
  "0 \<le> i \<Longrightarrow> i < 10 ^ int_max_str_digits \<Longrightarrow> py_str i = Inr (decimal i)"
  using length_decimal_le [of i] by (simp add: py_str_def decimal_nonneg)

lemma py_int_decimal:
  "0 \<le> i \<Longrightarrow> i < 10 ^ int_max_str_digits \<Longrightarrow> py_int (decimal i) = Inr i"
  using length_decimal_le [of i]
  by (simp add: py_int_def decimal_nonneg digits_value_str_nat)

lemma nat_power_ten: "nat ((10::int) ^ k) = 10 ^ k"
  by (simp add: nat_power_eq)

lemma length_decimal_limit:
  "length (decimal (10 ^ int_max_str_digits)) = Suc int_max_str_digits"
  by (simp add: decimal_def nat_power_ten length_str_nat_power)

lemma py_int_decimal_limit:
  "py_int (decimal (10 ^ int_max_str_digits)) = Inl (ExceedsDigitLimit (Suc int_max_str_digits))"
  by (simp add: py_int_def length_decimal_limit)

lemma py_str_limit:
  "py_str (10 ^ int_max_str_digits) = Inl (ExceedsDigitLimit (Suc int_max_str_digits))"
  by (simp add: py_str_def nat_power_ten length_str_nat_power)

lemma small_below_limit: "(i::int) < 10 ^ 5 \<Longrightarrow> i < 10 ^ int_max_str_digits"
proof -
  assume "i < 10 ^ 5"
  also have "(10::int) ^ 5 \<le> 10 ^ int_max_str_digits"
    by (rule power_increasing) (simp_all add: int_max_str_digits_def)
  finally show ?thesis .
qed

lemma decimal_examples:
  "decimal 0 = ''0''" "decimal 500 = ''500''" "decimal 99999 = ''99999''"
  by (simp_all add: decimal_def str_nat_small str_nat_large digit_char_def)


section \<open>Properties of range parsing\<close>

text \<open>
  Claim C5, as stated: for every \<open>file_size \<ge> 1\<close> and all integers \<open>start\<close>, \<open>end\<close> with
  \<open>0 \<le> start \<le> end\<close> and \<open>start < file_size\<close>, parsing \<open>bytes={start}-{end}\<close> returns
  \<open>(start, min(end, file_size - 1))\<close>. Integers are unbounded, conversions are not: for
  \<open>end = 10 ^ 4300\<close>, a number of 4301 digits, \<open>str\<close> raises, and the decimal string, written
  out by other means, is refused by the \<open>int(end_str)\<close> of the parser instead of being
  clamped to the file size.
\<close>

theorem parse_range_header_standard_counterexample:
  "(0::int) \<le> 10 ^ int_max_str_digits \<and>
   py_str (10 ^ int_max_str_digits) = Inl (ExceedsDigitLimit (Suc int_max_str_digits)) \<and>
   parse_range_header (''bytes='' @ decimal 0 @ ''-'' @ decimal (10 ^ int_max_str_digits)) 100
     = Inl (ExceedsDigitLimit (Suc int_max_str_digits))"
proof -
  have m: "re_match (''bytes='' @ decimal 0 @ ''-'' @ decimal (10 ^ int_max_str_digits))
           = Some (decimal 0, decimal (10 ^ int_max_str_digits))"
    by (intro re_match_format decimal_digits) simp_all
  have z: "py_int (decimal 0) = Inr 0"
    by (rule py_int_decimal) simp_all
  show ?thesis
    unfolding parse_range_header_def m
    by (simp add: decimal_nonempty z py_int_decimal_limit py_str_limit)
qed

text \<open>
  Claim C5, amended. For every \<open>file_size \<ge> 1\<close> and all integers \<open>start\<close>, \<open>end\<close> with
  \<open>0 \<le> start \<le> end\<close>, \<open>start < file_size\<close> and \<open>end < 10 ^ 4300\<close> (at most 4300 decimal
  digits), the Range string \<open>bytes={start}-{end}\<close> is built, and parsing it against
  \<open>file_size\<close> returns the inclusive pair \<open>(start, min(end, file_size - 1))\<close>.
\<close>

theorem parse_range_header_standard:
  fixes file_size start end' :: int
  assumes "1 \<le> file_size" and "0 \<le> start" and "start \<le> end'" and "start < file_size"
    and "end' < 10 ^ int_max_str_digits"
  shows "py_str start = Inr (decimal start) \<and> py_str end' = Inr (decimal end') \<and>
         parse_range_header (''bytes='' @ decimal start @ ''-'' @ decimal end') file_size
         = Inr (start, min end' (file_size - 1))"
proof -
  from assms have e: "0 \<le> end'" and s: "start < 10 ^ int_max_str_digits"
    by simp_all
  have m: "re_match (''bytes='' @ decimal start @ ''-'' @ decimal end')
           = Some (decimal start, decimal end')"
    using assms(2) e by (intro re_match_format decimal_digits)
  have i: "py_int (decimal start) = Inr start" "py_int (decimal end') = Inr end'"
    using assms(2,5) e s by (simp_all add: py_int_decimal)
  have p: "parse_range_header (''bytes='' @ decimal start @ ''-'' @ decimal end') file_size
           = Inr (start, min end' (file_size - 1))"
    unfolding parse_range_header_def m
    using assms e by (simp add: decimal_nonempty i min_def)
  with assms(2,5) e s show ?thesis
    by (simp add: py_str_decimal)
qed

theorem parse_range_header_standard_witness:
  "(1::int) \<le> 10000 \<and> (0::int) \<le> 0 \<and> (0::int) \<le> 99999 \<and> (0::int) < 10000 \<and>
   (99999::int) < 10 ^ int_max_str_digits \<and>
   py_str 0 = Inr ''0'' \<and> py_str 99999 = Inr ''99999'' \<and>
   parse_range_header ''bytes=0-99999'' 10000 = Inr (0, 9999)"
proof -
  have l: "(99999::int) < 10 ^ int_max_str_digits"
    by (rule small_below_limit) simp
  from parse_range_header_standard [of 10000 0 99999] l show ?thesis
    by (simp add: decimal_examples)
qed

text \<open>
  Claim C6, as stated: for every \<open>file_size \<ge> 1\<close> and every \<open>suffix \<ge> 1\<close>, parsing
  \<open>bytes=-{suffix}\<close> returns \<open>(max(0, file_size - suffix), file_size - 1)\<close>. For the suffix
  \<open>10 ^ 4300\<close> the conversions raise, as for claim C5.
\<close>

theorem parse_range_header_suffix_counterexample:
  "(1::int) \<le> 10 ^ int_max_str_digits \<and>
   py_str (10 ^ int_max_str_digits) = Inl (ExceedsDigitLimit (Suc int_max_str_digits)) \<and>
   parse_range_header (''bytes=-'' @ decimal (10 ^ int_max_str_digits)) 100
     = Inl (ExceedsDigitLimit (Suc int_max_str_digits))"
proof -
  have "re_match (''bytes='' @ [] @ ''-'' @ decimal (10 ^ int_max_str_digits))
        = Some ([], decimal (10 ^ int_max_str_digits))"
    by (intro re_match_format decimal_digits) simp_all
  then have m: "re_match (''bytes=-'' @ decimal (10 ^ int_max_str_digits))
                = Some ([], decimal (10 ^ int_max_str_digits))"
    by simp
  show ?thesis
    unfolding parse_range_header_def m
    by (simp add: decimal_nonempty py_int_decimal_limit py_str_limit)
qed

text \<open>
  Claim C6, amended. For every \<open>file_size \<ge> 1\<close> and every \<open>suffix\<close> with
  \<open>1 \<le> suffix < 10 ^ 4300\<close> (at most 4300 decimal digits), the Range string
  \<open>bytes=-{suffix}\<close> is built, and parsing it against \<open>file_size\<close> returns the inclusive pair
  \<open>(max(0, file_size - suffix), file_size - 1)\<close>.
\<close>

theorem parse_range_header_suffix:
  fixes file_size suffix :: int
  assumes "1 \<le> file_size" and "1 \<le> suffix" and "suffix < 10 ^ int_max_str_digits"
  shows "py_str suffix = Inr (decimal suffix) \<and>
         parse_range_header (''bytes=-'' @ decimal suffix) file_size
         = Inr (max 0 (file_size - suffix), file_size - 1)"
proof -
  from assms have s: "0 \<le> suffix" by simp
  have "re_match (''bytes='' @ [] @ ''-'' @ decimal suffix) = Some ([], decimal suffix)"
    using s by (intro re_match_format decimal_digits) simp
  then have m: "re_match (''bytes=-'' @ decimal suffix) = Some ([], decimal suffix)"
    by simp
  have i: "py_int (decimal suffix) = Inr suffix"
    using s assms(3) by (rule py_int_decimal)
  have "parse_range_header (''bytes=-'' @ decimal suffix) file_size
        = Inr (max 0 (file_size - suffix), file_size - 1)"
    unfolding parse_range_header_def m
    using assms s by (simp add: decimal_nonempty i Let_def)
  with s assms(3) show ?thesis
    by (simp add: py_str_decimal)
qed

theorem parse_range_header_suffix_witness:
  "(1::int) \<le> 10000 \<and> (1::int) \<le> 500 \<and> (500::int) < 10 ^ int_max_str_digits \<and>
   py_str 500 = Inr ''500'' \<and>
   parse_range_header ''bytes=-500'' 10000 = Inr (9500, 9999)"
proof -
  have l: "(500::int) < 10 ^ int_max_str_digits"
    by (rule small_below_limit) simp
  from parse_range_header_suffix [of 10000 500] l show ?thesis
    by (simp add: decimal_examples)
qed

text \<open>
  Claim C9. Whenever range parsing succeeds and returns a pair \<open>(start, end)\<close> for content
  of length \<open>file_size\<close>, that pair satisfies \<open>0 \<le> start \<le> end < file_size\<close>. This holds for
  every header string and every integer \<open>file_size\<close>, also zero or negative ones (for which
  parsing never succeeds).
\<close>

theorem parse_range_header_in_bounds:
  fixes file_size start end' :: int
  assumes "parse_range_header range_header file_size = Inr (start, end')"
  shows "0 \<le> start \<and> start \<le> end' \<and> end' < file_size"
proof (cases "re_match range_header")
  case None
  with assms show ?thesis by (simp add: parse_range_header_def)
next
  case (Some g)
  obtain start_str end_str where g: "g = (start_str, end_str)"
    by (cases g)
  from Some g have "list_all is_digit start_str"
    using re_match_digits by blast
  then have n: "\<And>v. py_int start_str = Inr v \<Longrightarrow> 0 \<le> v"
    by (rule py_int_nonneg)
  from assms Some g show ?thesis
    by (auto simp: parse_range_header_def Let_def split: if_splits sum.splits dest: n)
qed

theorem parse_range_header_in_bounds_witness:
  "parse_range_header ''bytes=5000-'' 10000 = Inr (5000, 9999) \<and>
   (0::int) \<le> 5000 \<and> (5000::int) \<le> 9999 \<and> (9999::int) < 10000"
proof -
  have p: "parse_range_header ''bytes=5000-'' 10000 = Inr (5000, 9999)"
    by (simp add: parse_range_header_def re_match_def is_digit_def py_int_def
        int_max_str_digits_def digits_value_def digit_value_def)
  show ?thesis
    using parse_range_header_in_bounds [OF p] p by simp
qed

text \<open>
  What the parser accepts: a header is parsed only when it starts with a string in one
  of the three textual forms, and then the rest of the header has no influence on the
  result.
\<close>

lemma re_match_prefix:
  assumes "re_match s = Some (a, b)"
  shows "\<exists>rest. s = ''bytes='' @ a @ ''-'' @ b @ rest"
proof -
  from assms have t: "take 6 s = ''bytes=''"
    by (auto simp: re_match_def split: if_splits)
  obtain r' where d: "dropWhile is_digit (drop 6 s) = CHR ''-'' # r'"
    and a: "a = takeWhile is_digit (drop 6 s)" and b: "b = takeWhile is_digit r'"
    using assms t by (auto simp: re_match_def Let_def split: list.splits if_splits)
  have "s = take 6 s @ drop 6 s" by simp
  also have "drop 6 s = takeWhile is_digit (drop 6 s) @ dropWhile is_digit (drop 6 s)"
    by simp
  also have "dropWhile is_digit (drop 6 s)
      = CHR ''-'' # (takeWhile is_digit r' @ dropWhile is_digit r')"
    using d by simp
  finally have "s = ''bytes='' @ a @ ''-'' @ b @ dropWhile is_digit r'"
    using t a b by simp
  then show ?thesis ..
qed

lemma spec_range_form_format:
  assumes "list_all is_digit a" and "list_all is_digit b" and "\<not> (a = [] \<and> b = [])"
  shows "spec_range_form (''bytes='' @ a @ ''-'' @ b)"
proof -
  have t1: "takeWhile is_digit (a @ CHR ''-'' # b) = a"
    using assms(1) not_digit_hyphen by (simp add: takeWhile_tail list_all_iff)
  have d1: "dropWhile is_digit (a @ CHR ''-'' # b) = CHR ''-'' # b"
    using assms(1) not_digit_hyphen by (simp add: dropWhile_append list_all_iff)
  show ?thesis
    using assms(2,3) not_digit_hyphen by (simp add: spec_range_form_def t1 d1)
qed

lemma parse_range_header_prefix_form:
  fixes file_size :: int
  assumes "parse_range_header s file_size = Inr r"
  shows "\<exists>p rest. s = p @ rest \<and> spec_range_form p \<and> parse_range_header p file_size = Inr r"
proof -
  from assms obtain a b where m: "re_match s = Some (a, b)" and ne: "\<not> (a = [] \<and> b = [])"
    by (auto simp: parse_range_header_def split: option.splits if_splits)
  from m have dg: "list_all is_digit a" "list_all is_digit b"
    using re_match_digits by blast+
  from re_match_prefix [OF m] obtain rest where s: "s = (''bytes='' @ a @ ''-'' @ b) @ rest"
    by auto
  have f: "spec_range_form (''bytes='' @ a @ ''-'' @ b)"
    using dg ne by (rule spec_range_form_format)
  have "re_match (''bytes='' @ a @ ''-'' @ b) = Some (a, b)"
    using dg by (rule re_match_format)
  with m assms have "parse_range_header (''bytes='' @ a @ ''-'' @ b) file_size = Inr r"
    by (simp add: parse_range_header_def)
  with s f show ?thesis by blast
qed

lemma spec_range_form_matches:
  assumes "spec_range_form s"
  shows "\<exists>a b. re_match s = Some (a, b)"
  using assms
  by (auto simp: spec_range_form_def re_match_def Let_def split: list.splits)

text \<open>
  Claim C4. Every Range string that does not match one of the three textual forms fails
  with a malformed-range error, and no other input string yields a parsed range. The
  source matches with \<open>re.match\<close>, which anchors the pattern at the start of the string
  only: the header \<open>bytes=0-10xyz\<close> is in none of the three forms, and is parsed as the
  range \<open>(0, 10)\<close>.
\<close>

theorem parse_range_header_trailing_garbage:
  "\<not> spec_range_form ''bytes=0-10xyz'' \<and>
   parse_range_header ''bytes=0-10xyz'' 100 = Inr (0, 10)"
  by (simp add: spec_range_form_def parse_range_header_def re_match_def is_digit_def
      py_int_def int_max_str_digits_def digits_value_def digit_value_def)


section \<open>Properties of the Asset Registry\<close>

text \<open>
  Claim C7. For every song id, the completeness predicate \<open>has_required_assets\<close> returns
  true if and only if the set of asset kinds recorded for that song is a superset of
  \<open>{video_master, audio_original, audio_inst}\<close>. So it is false for a song with no records
  or with a mandatory kind missing, whatever optional kinds are present, and a duplicate
  record of a mandatory kind counts as presence.
\<close>

theorem has_required_assets_iff:
  "has_required_assets rows sid \<longleftrightarrow>
   {''video_master'', ''audio_original'', ''audio_inst''}
     \<subseteq> type ` set (get_assets_by_song rows sid)"
  by (auto simp: has_required_assets_def get_assets_by_song_def image_iff)

lemma has_required_assets_no_records: "\<not> has_required_assets [] sid"
  by (simp add: has_required_assets_def)

lemma has_required_assets_without_video:
  "\<not> has_required_assets
       [ex_asset 10 1 AUDIO_ORIGINAL ''o.mp3'', ex_asset 11 1 AUDIO_INST ''i.mp3'',
        ex_asset 12 1 AUDIO_VOCAL ''v.mp3''] 1"
  by (simp add: has_required_assets_def ex_asset_def)

lemma has_required_assets_with_duplicates:
  "has_required_assets
     [ex_asset 10 1 VIDEO_MASTER ''a.mp4'', ex_asset 11 1 VIDEO_MASTER ''b.mp4'',
      ex_asset 12 1 AUDIO_ORIGINAL ''o.mp3'', ex_asset 13 1 AUDIO_INST ''i.mp3''] 1"
  by (simp add: has_required_assets_def ex_asset_def)

lemma Sync_get_asset_by_song_and_type_find:
  "SyncMediaAssetService_get_asset_by_song_and_type rows sid t
   = List.find (\<lambda>a. song_id a = sid \<and> type a = AssetType_value t) rows"
  unfolding SyncMediaAssetService_get_asset_by_song_and_type_def
  by (induction rows) (auto split: list.splits)

text \<open>
  Claim C8. \<open>get_asset_by_song_and_type\<close> returns the first matching record whenever at
  least one record of that kind exists for the song, also when there are duplicates, and
  never raises on duplicates. The worker's service does (it takes \<open>.first()\<close>); the API's
  service, which the streaming routes call, takes \<open>scalar_one_or_none()\<close> and raises
  \<open>MultipleResultsFound\<close> on two records of the same kind.
\<close>

theorem get_asset_by_song_and_type_duplicates:
  "MediaAssetService_get_asset_by_song_and_type
     [ex_asset 10 1 VIDEO_MASTER ''a.mp4'', ex_asset 11 1 VIDEO_MASTER ''b.mp4''] 1 VIDEO_MASTER
   = Inl MultipleResultsFound \<and>
   SyncMediaAssetService_get_asset_by_song_and_type
     [ex_asset 10 1 VIDEO_MASTER ''a.mp4'', ex_asset 11 1 VIDEO_MASTER ''b.mp4''] 1 VIDEO_MASTER
   = Some (ex_asset 10 1 VIDEO_MASTER ''a.mp4'')"
  by (simp add: MediaAssetService_get_asset_by_song_and_type_def
      SyncMediaAssetService_get_asset_by_song_and_type_def ex_asset_def)


section \<open>Lemmas on the steps of the task\<close>

lemma create_media_assets_songs:
  "create_media_assets UUID ev db sid vp op ip vm om im = (c, db') \<Longrightarrow> songs db' = songs db"
  by (auto simp: create_media_assets_def split: option.splits prod.splits)

lemma has_required_assetsI:
  assumes "a \<in> set rows" "song_id a = u" "type a = ''video_master''"
    and "b \<in> set rows" "song_id b = u" "type b = ''audio_original''"
    and "c \<in> set rows" "song_id c = u" "type c = ''audio_inst''"
  shows "has_required_assets rows u"
proof -
  have "''video_master'' \<in> type ` {x \<in> set rows. song_id x = u \<and>
      type x \<in> {''video_master'', ''audio_original'', ''audio_inst''}}"
    using assms(1-3) by force
  moreover have "''audio_original'' \<in> type ` {x \<in> set rows. song_id x = u \<and>
      type x \<in> {''video_master'', ''audio_original'', ''audio_inst''}}"
    using assms(4-6) by force
  moreover have "''audio_inst'' \<in> type ` {x \<in> set rows. song_id x = u \<and>
      type x \<in> {''video_master'', ''audio_original'', ''audio_inst''}}"
    using assms(7-9) by force
  ultimately show ?thesis
    by (simp add: has_required_assets_def)
qed

lemma create_media_assets_for_song_complete:
  assumes "create_media_assets_for_song rows ids u vp op ip vm om im = (assets, rows')"
  shows "has_required_assets rows' u"
proof -
  from assms obtain a b c where r: "rows' = rows @ [a, b, c]"
    and "song_id a = u" "type a = ''video_master''"
    and "song_id b = u" "type b = ''audio_original''"
    and "song_id c = u" "type c = ''audio_inst''"
    by (auto simp: create_media_assets_for_song_def create_asset_def Let_def)
  then show ?thesis
    by (intro has_required_assetsI [of a _ _ b c]) simp_all
qed

lemma create_media_assets_complete:
  "create_media_assets UUID ev db sid vp op ip vm om im = (True, db') \<Longrightarrow>
   UUID sid = Some u \<Longrightarrow> has_required_assets (media_assets db') u"
  by (auto simp: create_media_assets_def create_media_assets_for_song_complete
      split: option.splits prod.splits)

lemma try_body_success:
  assumes "try_body UUID ev db sid fp = (Inr r, db')"
    and "assets_created r = Some True" and "UUID sid = Some u"
  shows "status_of db' u = Some ''READY'' \<and> has_required_assets (media_assets db') u"
proof -
  from assms obtain song where s: "songs db u = Some song"
    by (auto simp: try_body_def failure_result_def Let_def split: option.splits prod.splits)
  define db1 where
    "db1 = db\<lparr>songs := (songs db)(u \<mapsto> song\<lparr>status := SongStatus_value PROCESSING\<rparr>)\<rparr>"
  define paths where "paths = generate_output_paths sid fp"
  obtain created db2 where c: "create_media_assets UUID ev db1 sid
      (video_master paths) (audio_original paths) (audio_inst paths)
      (Some [''codec'' \<mapsto> JStr ''h264'', ''resolution'' \<mapsto> JStr ''1920x1080''])
      (Some [''codec'' \<mapsto> JStr ''mp3'', ''bitrate'' \<mapsto> JInt 320000])
      (Some [''codec'' \<mapsto> JStr ''mp3'', ''bitrate'' \<mapsto> JInt 320000]) = (created, db2)"
    by (cases "create_media_assets UUID ev db1 sid
      (video_master paths) (audio_original paths) (audio_inst paths)
      (Some [''codec'' \<mapsto> JStr ''h264'', ''resolution'' \<mapsto> JStr ''1920x1080''])
      (Some [''codec'' \<mapsto> JStr ''mp3'', ''bitrate'' \<mapsto> JInt 320000])
      (Some [''codec'' \<mapsto> JStr ''mp3'', ''bitrate'' \<mapsto> JInt 320000])")
  have sg: "songs db2 = songs db1"
    using c by (rule create_media_assets_songs)
  from assms s c sg have cr: "created" and
    d: "db' = db2\<lparr>songs := (songs db2)(u \<mapsto>
          (song\<lparr>status := SongStatus_value PROCESSING\<rparr>)\<lparr>status := SongStatus_value READY\<rparr>)\<rparr>"
    by (auto simp: try_body_def Let_def db1_def paths_def failure_result_def
        split: option.splits)
  from c cr assms(3) have "has_required_assets (media_assets db2) u"
    by (auto intro: create_media_assets_complete)
  with d show ?thesis
    by (simp add: status_of_def)
qed



lemma mark_song_failed_null_meta:
  assumes "UUID sid = Some u" and "mark_error ev = None"
    and "songs db u = Some song" and "meta_json song = None"
  shows "meta_value (mark_song_failed UUID ev db sid msg) u ''error'' = Some (JStr msg)"
  using assms
  by (simp add: mark_song_failed_def meta_value_def)

lemma mark_song_failed_dict_meta:
  assumes "UUID sid = Some u" and "mark_error ev = None"
    and "songs db u = Some song" and "meta_json song = Some m"
  shows "meta_value (mark_song_failed UUID ev db sid msg) u k = m k"
  using assms
  by (simp add: mark_song_failed_def meta_value_def)

lemma mark_song_failed_keeps_keys:
  assumes "meta_value db u k = Some v" and "k \<noteq> ''error''"
  shows "meta_value (mark_song_failed UUID ev db sid msg) u k = Some v"
  using assms
  by (auto simp: mark_song_failed_def meta_value_def split: option.splits)





lemma ex_UUID_1: "ex_UUID ex_song_id = Some 1"
  by (simp add: ex_UUID_def ex_song_id_def)

lemma ex_UUID_2: "ex_UUID ex_other_id = Some 2"
  by (simp add: ex_UUID_def ex_other_id_def)


section \<open>Properties of the Lifecycle Orchestrator\<close>

text \<open>
  A run that ends \<open>READY\<close> and reports \<open>assets_created = True\<close> has registered the three
  mandatory kinds.
\<close>

lemma ready_with_assets_created_complete:
  assumes "process_song_task UUID ev db sid fp = (Returned r, db')"
    and "assets_created r = Some True" and "UUID sid = Some u"
  shows "status_of db' u = Some ''READY'' \<and> has_required_assets (media_assets db') u"
proof -
  obtain x db1 where t: "try_body UUID ev db sid fp = (x, db1)"
    by (cases "try_body UUID ev db sid fp")
  with assms(1,2) have "x = Inr r" and "db1 = db'"
    by (auto simp: process_song_task_def failure_result_def split: sum.splits exn.splits)
  with t assms(2,3) show ?thesis
    by (auto dest: try_body_success)
qed

text \<open>
  Claim C1. Every song whose processing run ends in \<open>READY\<close> has at least one record of
  each mandatory kind in the Asset Registry; the job sets \<open>READY\<close> only when the
  completeness predicate is true. The task never calls \<open>has_required_assets\<close>: when the
  registration of the assets fails, \<open>_create_media_assets\<close> catches the exception and
  returns \<open>False\<close>, the task logs a warning and goes on to step 6. In the run below the
  registration fails, and the song ends \<open>READY\<close> with no record at all.
\<close>

theorem ready_without_assets:
  "status_of (snd (process_song_task ex_UUID
      (no_faults\<lparr>assets_error := Some (Exception ''connection lost'')\<rparr>)
      ex_db ex_song_id ex_file)) 1 = Some ''READY'' \<and>
   \<not> has_required_assets (media_assets (snd (process_song_task ex_UUID
      (no_faults\<lparr>assets_error := Some (Exception ''connection lost'')\<rparr>)
      ex_db ex_song_id ex_file))) 1"
  by (simp add: process_song_task_def try_body_def create_media_assets_def ex_UUID_1
      no_faults_def ex_db_def status_of_def has_required_assets_def Let_def)

text \<open>
  Claim C2. Every song that reaches \<open>FAILED\<close> has a non-empty string under the \<open>error\<close> key
  of \<open>meta_json\<close>, and every other key is kept. The other keys are kept
  (\<open>mark_song_failed_keeps_keys\<close>). The error is not there: the song below has the
  auxiliary metadata \<open>{bpm: 120}\<close>, a processing step raises \<open>CUDA out of memory\<close>, and the
  song reaches \<open>FAILED\<close> with its stored metadata as before, without an \<open>error\<close> key.
\<close>

theorem failed_without_error:
  "fst (process_song_task ex_UUID (ex_evs 0) ex_db ex_song_id ex_file)
     = Raised (Exception ''CUDA out of memory'') \<and>
   status_of (snd (process_song_task ex_UUID (ex_evs 0) ex_db ex_song_id ex_file)) 1
     = Some ''FAILED'' \<and>
   meta_value (snd (process_song_task ex_UUID (ex_evs 0) ex_db ex_song_id ex_file)) 1 ''error''
     = None \<and>
   meta_value (snd (process_song_task ex_UUID (ex_evs 0) ex_db ex_song_id ex_file)) 1 ''bpm''
     = Some (JInt 120)"
  by (simp add: process_song_task_def try_body_def mark_song_failed_def ex_UUID_1 ex_evs_def
      no_faults_def ex_db_def status_of_def meta_value_def Let_def ex_song_def)

text \<open>
  Where the error is written, for a song whose \<open>meta_json\<close> is NULL, it is \<open>str(e)\<close> as it
  is: an exception with an empty message leaves the empty string.
\<close>

lemma failed_null_meta_empty_error:
  "status_of (snd (process_song_task ex_UUID (no_faults\<lparr>steps_error := Some (Exception [])\<rparr>)
      ex_db_null ex_song_id ex_file)) 1 = Some ''FAILED'' \<and>
   meta_value (snd (process_song_task ex_UUID (no_faults\<lparr>steps_error := Some (Exception [])\<rparr>)
      ex_db_null ex_song_id ex_file)) 1 ''error'' = Some (JStr [])"
  by (simp add: process_song_task_def try_body_def mark_song_failed_def ex_UUID_1
      no_faults_def ex_db_null_def status_of_def meta_value_def Let_def ex_song_def)




text \<open>
  Claim C10. If the processing job is invoked with a song id for which no song record
  exists, it returns a failure outcome (\<open>success = False\<close>, \<open>error = 'Song not found'\<close>)
  without raising an exception, so the job is not retried, and it leaves every song and
  the whole asset registry unchanged. Here the song id is a well-formed UUID string and
  the lookup of step 1 runs without a database error, which is how the job finds out that
  no record exists.
\<close>

theorem song_not_found_returns:
  assumes "UUID sid = Some u" and "songs db u = None" and "step1_error (evs 0) = None"
  shows "\<exists>r. process_song_task UUID (evs 0) db sid fp = (Returned r, db) \<and>
             \<not> success r \<and> error r = Some ''Song not found'' \<and>
             run_job UUID evs db sid fp = [(Returned r, db)]"
  using assms
  by (simp add: process_song_task_def try_body_def failure_result_def run_job_def
      max_retries_def numeral_3_eq_3)

theorem song_not_found_returns_witness:
  "ex_UUID ex_other_id = Some 2 \<and> songs ex_db 2 = None \<and>
   step1_error ((\<lambda>k. no_faults) 0) = None \<and>
   (\<exists>r. process_song_task ex_UUID no_faults ex_db ex_other_id ex_file = (Returned r, ex_db) \<and>
        \<not> success r \<and> error r = Some ''Song not found'' \<and>
        run_job ex_UUID (\<lambda>k. no_faults) ex_db ex_other_id ex_file = [(Returned r, ex_db)])"
proof -
  have a: "songs ex_db 2 = None" by (simp add: ex_db_def)
  have b: "step1_error ((\<lambda>k::nat. no_faults) 0) = None" by (simp add: no_faults_def)
  from song_not_found_returns
    [of ex_UUID ex_other_id 2 ex_db "\<lambda>k. no_faults" ex_file, OF ex_UUID_2 a b]
  show ?thesis
    using a b by (simp add: ex_UUID_2)
qed

text \<open>
  Whatever goes wrong around it, a job for a song that has no record changes nothing in
  the store.
\<close>

lemma song_not_found_store_unchanged:
  assumes "UUID sid = Some u" and "songs db u = None"
  shows "snd (process_song_task UUID ev db sid fp) = db"
  using assms
  by (auto simp: process_song_task_def try_body_def mark_song_failed_def
      split: option.splits exn.splits)

end
